theory Spec2Isabelle
  imports Main
begin

section \<open>Pattern matching helpers of salt/utils/stringutils.py\<close>

text \<open>
  The theory embeds \<^verbatim>\<open>expr_match\<close>, \<^verbatim>\<open>check_whitelist_blacklist\<close> and
  \<^verbatim>\<open>check_include_exclude\<close>. Strings are \<^typ>\<open>string\<close>; an exception is a value
  \<open>Inl e\<close> of a sum type; the messages handed to \<^verbatim>\<open>log.error\<close> are returned
  as a list beside the result.
\<close>

subsection \<open>Python values, exceptions, log records\<close>

datatype error = TypeError | ReError | UnboundLocalError

text \<open>
  What a pattern position can hold: a \<^verbatim>\<open>str\<close>, or a scalar that is not a string
  (an \<^verbatim>\<open>int\<close> stands for those).
\<close>

datatype pyval = PStr string | PInt int

text \<open>
  The \<^verbatim>\<open>whitelist\<close> and \<^verbatim>\<open>blacklist\<close> arguments as the code inspects them:
  \<^verbatim>\<open>None\<close>, an object without an \<^verbatim>\<open>__iter__\<close> attribute, or a list, tuple or set
  (an object with \<^verbatim>\<open>__iter__\<close>) given by the values it yields. A \<^verbatim>\<open>str\<close> has no
  \<^verbatim>\<open>__iter__\<close> in Python 2 and is then a \<open>PObj\<close>; in Python 3 it has one and is
  the \<open>PIter\<close> of its one-character strings.
\<close>

datatype pyarg = PNone | PObj pyval | PIter "pyval list"

datatype logrecord = LogError string "pyval list"

text \<open>The outcome of a block of statements: a \<^verbatim>\<open>return\<close>, a raise, or falling through.\<close>

datatype 'a outcome = Return 'a | Raise error | Continue

subsection \<open>The standard library, as a parameter\<close>

text \<open>
  \<^verbatim>\<open>fnmatch.fnmatch(name, pat)\<close>, \<^verbatim>\<open>re.match(pattern, string)\<close> and
  \<^verbatim>\<open>re.search(pattern, string)\<close> on strings. The two functions of \<^verbatim>\<open>re\<close> answer
  \<open>None\<close> when the pattern does not compile (\<^verbatim>\<open>re.error\<close>), and otherwise whether
  a match object was found.
\<close>

record pylib =
  fnmatch :: "string \<Rightarrow> string \<Rightarrow> bool"
  re_match :: "string \<Rightarrow> string \<Rightarrow> bool option"
  re_search :: "string \<Rightarrow> string \<Rightarrow> bool option"

definition bslash :: char where
  "bslash = CHR 0x5C"

definition newline :: char where
  "newline = CHR 0x0A"

subsection \<open>expr_match\<close>

text \<open>\<^verbatim>\<open>r'\A{0}\Z'.format(expr)\<close>\<close>

definition anchored :: "string \<Rightarrow> string" where
  "anchored expr = bslash # CHR ''A'' # expr @ [bslash, CHR ''Z'']"

text \<open>
  For a pattern that is not a string, \<^verbatim>\<open>line == expr\<close> is false and
  \<^verbatim>\<open>fnmatch.fnmatch\<close>, which is called outside the \<^verbatim>\<open>try\<close>, raises
  \<^verbatim>\<open>TypeError\<close>. The \<^verbatim>\<open>try\<close> around \<^verbatim>\<open>re.match\<close> swallows \<^verbatim>\<open>re.error\<close>.
\<close>

definition expr_match :: "pylib \<Rightarrow> string \<Rightarrow> pyval \<Rightarrow> error + bool" where
  "expr_match L line expr =
     (case expr of
        PInt n \<Rightarrow> Inl TypeError
      | PStr e \<Rightarrow>
          if line = e then Inr True
          else if fnmatch L line e then Inr True
          else (case re_match L (anchored e) line of
                  Some True \<Rightarrow> Inr True
                | Some False \<Rightarrow> Inr False
                | None \<Rightarrow> Inr False))"

subsection \<open>check_whitelist_blacklist\<close>

text \<open>
  \<^verbatim>\<open>for expr in xs: if expr_match(value, expr): return ...\<close>: \<open>Inr True\<close> when
  the loop body returned, \<open>Inr False\<close> when the loop ran to its end.
\<close>

fun any_match :: "pylib \<Rightarrow> string \<Rightarrow> pyval list \<Rightarrow> error + bool" where
  "any_match L v [] = Inr False"
| "any_match L v (e # es) =
     (case expr_match L v e of
        Inl err \<Rightarrow> Inl err
      | Inr True \<Rightarrow> Inr True
      | Inr False \<Rightarrow> any_match L v es)"

text \<open>\<^verbatim>\<open>if not hasattr(x, '__iter__'): x = [x]\<close>\<close>

fun coerce :: "pyarg \<Rightarrow> pyval list" where
  "coerce (PObj v) = [v]"
| "coerce (PIter vs) = vs"
| "coerce PNone = []"

text \<open>Truth value of an argument, as \<^verbatim>\<open>if whitelist:\<close> tests it.\<close>

fun truthy :: "pyarg \<Rightarrow> bool" where
  "truthy PNone = False"
| "truthy (PObj (PStr s)) = (s \<noteq> [])"
| "truthy (PObj (PInt n)) = (n \<noteq> 0)"
| "truthy (PIter vs) = (vs \<noteq> [])"

definition blacklist_block ::
  "pylib \<Rightarrow> string \<Rightarrow> pyarg \<Rightarrow> bool outcome \<times> logrecord list" where
  "blacklist_block L v blacklist =
     (if blacklist \<noteq> PNone then
        (case any_match L v (coerce blacklist) of
           Inr True \<Rightarrow> (Return False, [])
         | Inr False \<Rightarrow> (Continue, [])
         | Inl TypeError \<Rightarrow>
             (Continue, [LogError ''Non-iterable blacklist %s'' (coerce blacklist)])
         | Inl e \<Rightarrow> (Raise e, []))
      else (Continue, []))"

definition whitelist_block ::
  "pylib \<Rightarrow> string \<Rightarrow> pyarg \<Rightarrow> bool outcome \<times> logrecord list" where
  "whitelist_block L v whitelist =
     (if truthy whitelist then
        (case any_match L v (coerce whitelist) of
           Inr True \<Rightarrow> (Return True, [])
         | Inr False \<Rightarrow> (Continue, [])
         | Inl TypeError \<Rightarrow>
             (Continue, [LogError ''Non-iterable whitelist %s'' (coerce whitelist)])
         | Inl e \<Rightarrow> (Raise e, []))
      else (Return True, []))"

definition check_whitelist_blacklist ::
  "pylib \<Rightarrow> string \<Rightarrow> pyarg \<Rightarrow> pyarg \<Rightarrow> (error + bool) \<times> logrecord list" where
  "check_whitelist_blacklist L v whitelist blacklist =
     (case blacklist_block L v blacklist of
        (Return b, lg) \<Rightarrow> (Inr b, lg)
      | (Raise e, lg) \<Rightarrow> (Inl e, lg)
      | (Continue, lg) \<Rightarrow>
          (case whitelist_block L v whitelist of
             (Return b, lg') \<Rightarrow> (Inr b, lg @ lg')
           | (Raise e, lg') \<Rightarrow> (Inl e, lg @ lg')
           | (Continue, lg') \<Rightarrow> (Inr False, lg @ lg')))"

subsection \<open>check_include_exclude\<close>

text \<open>Truth value of \<^verbatim>\<open>include_pat\<close> and \<^verbatim>\<open>exclude_pat\<close>: neither \<^verbatim>\<open>None\<close> nor empty.\<close>

fun given :: "string option \<Rightarrow> bool" where
  "given None = False"
| "given (Some s) = (s \<noteq> [])"

text \<open>
  The test made for each pattern: \<^verbatim>\<open>re.match('E@', pat)\<close> selects
  \<^verbatim>\<open>re.search(pat[2:], path_str)\<close>, anything else \<^verbatim>\<open>fnmatch.fnmatch(path_str, pat)\<close>.
  No \<^verbatim>\<open>try\<close> surrounds these calls.
\<close>

definition pat_test :: "pylib \<Rightarrow> string \<Rightarrow> string \<Rightarrow> error + bool" where
  "pat_test L path_str pat =
     (case re_match L ''E@'' pat of
        None \<Rightarrow> Inl ReError
      | Some True \<Rightarrow>
          (case re_search L (drop 2 pat) path_str of
             None \<Rightarrow> Inl ReError
           | Some found \<Rightarrow> Inr found)
      | Some False \<Rightarrow> Inr (fnmatch L path_str pat))"

text \<open>
  \<^verbatim>\<open>retchk_include\<close> and \<^verbatim>\<open>retchk_exclude\<close> are bound only under their
  \<^verbatim>\<open>if\<close>: \<open>None\<close> is the unbound variable, and reading it raises.
\<close>

definition bind_include :: "pylib \<Rightarrow> string \<Rightarrow> string option \<Rightarrow> error + bool option" where
  "bind_include L path_str include_pat =
     (case include_pat of
        None \<Rightarrow> Inr None
      | Some p \<Rightarrow>
          if p = [] then Inr None
          else (case pat_test L path_str p of
                  Inl e \<Rightarrow> Inl e
                | Inr m \<Rightarrow> Inr (Some (if m then True else False))))"

definition bind_exclude :: "pylib \<Rightarrow> string \<Rightarrow> string option \<Rightarrow> error + bool option" where
  "bind_exclude L path_str exclude_pat =
     (case exclude_pat of
        None \<Rightarrow> Inr None
      | Some p \<Rightarrow>
          if p = [] then Inr None
          else (case pat_test L path_str p of
                  Inl e \<Rightarrow> Inl e
                | Inr m \<Rightarrow> Inr (Some (if m then False else True))))"

fun read_var :: "bool option \<Rightarrow> error + bool" where
  "read_var None = Inl UnboundLocalError"
| "read_var (Some b) = Inr b"

definition check_include_exclude ::
  "pylib \<Rightarrow> string \<Rightarrow> string option \<Rightarrow> string option \<Rightarrow> error + bool" where
  "check_include_exclude L path_str include_pat exclude_pat =
     (case bind_include L path_str include_pat of
        Inl e \<Rightarrow> Inl e
      | Inr retchk_include \<Rightarrow>
          (case bind_exclude L path_str exclude_pat of
             Inl e \<Rightarrow> Inl e
           | Inr retchk_exclude \<Rightarrow>
               if given include_pat \<and> \<not> given exclude_pat then read_var retchk_include
               else if given exclude_pat \<and> \<not> given include_pat then read_var retchk_exclude
               else if given include_pat \<and> given exclude_pat then
                 (case read_var retchk_include of
                    Inl e \<Rightarrow> Inl e
                  | Inr i \<Rightarrow>
                      if i then read_var retchk_exclude else Inr False)
               else Inr True))"

subsection \<open>A model of the standard library\<close>

text \<open>
  The closed examples below need a concrete \<^typ>\<open>pylib\<close>. \<open>py_fnmatch\<close> follows
  \<^verbatim>\<open>fnmatch.translate\<close> on POSIX, where \<^verbatim>\<open>os.path.normcase\<close> changes nothing:
  \<^verbatim>\<open>*\<close>, \<^verbatim>\<open>?\<close>, \<^verbatim>\<open>[seq]\<close>, \<^verbatim>\<open>[!seq]\<close>, a bracket without its closing
  bracket taken literally, a range whose bounds are in the wrong order matching nothing.
  \<open>py_re_match\<close> and \<open>py_re_search\<close> model \<^verbatim>\<open>re\<close> on a fragment of its syntax:
  literals, \<^verbatim>\<open>.\<close>, \<^verbatim>\<open>[...]\<close> with ranges and negation, \<^verbatim>\<open>*\<close>, \<^verbatim>\<open>+\<close>,
  \<^verbatim>\<open>?\<close> and their lazy forms, \<^verbatim>\<open>|\<close>, plain groups, \<^verbatim>\<open>^\<close>, \<^verbatim>\<open>$\<close>,
  \<^verbatim>\<open>\A\<close>, \<^verbatim>\<open>\Z\<close> and escaped punctuation. Only whether a match exists is modelled.
  \<open>re_compile\<close> answers \<open>None\<close> where \<^verbatim>\<open>re\<close> raises \<^verbatim>\<open>re.error\<close> in
  this fragment; it also answers \<open>None\<close> for the constructs left out (braces,
  \<^verbatim>\<open>(?...)\<close>, backslash followed by another letter or a digit, possessive
  quantifiers), so the engine says nothing about patterns that use them. The theorems
  that quantify over patterns are stated for every \<^typ>\<open>pylib\<close>.
\<close>

type_synonym charset = "(char \<times> char) list"

definition in_range :: "char \<Rightarrow> char \<times> char \<Rightarrow> bool" where
  "in_range c r = ((of_char (fst r) :: nat) \<le> of_char c \<and> (of_char c :: nat) \<le> of_char (snd r))"

definition in_set :: "bool \<Rightarrow> charset \<Rightarrow> char \<Rightarrow> bool" where
  "in_set neg rs c = (list_ex (in_range c) rs \<noteq> neg)"

datatype gtok = GStar | GAny | GSet bool charset | GLit char

fun glob_ranges :: "string \<Rightarrow> charset" where
  "glob_ranges (a # b # c # r) =
     (if b = CHR ''-'' then (a, c) # glob_ranges r else (a, a) # glob_ranges (b # c # r))"
| "glob_ranges (a # r) = (a, a) # glob_ranges r"
| "glob_ranges [] = []"

definition skip_if :: "char \<Rightarrow> string \<Rightarrow> string" where
  "skip_if c s = (case s of [] \<Rightarrow> [] | x # xs \<Rightarrow> if x = c then xs else s)"

definition glob_bracket :: "string \<Rightarrow> string option" where
  "glob_bracket s =
     (let body = dropWhile (\<lambda>x. x \<noteq> CHR '']'') (skip_if (CHR '']'') (skip_if (CHR ''!'') s))
      in if body = [] then None
         else Some (take (length s - length body) s))"

text \<open>
  The loop of \<^verbatim>\<open>fnmatch.translate\<close>: the index jumps over a bracket expression
  (\<^verbatim>\<open>i = j+1\<close>); here the first argument counts the characters still to skip.
\<close>

fun translate_from :: "nat \<Rightarrow> string \<Rightarrow> gtok list" where
  "translate_from n [] = []"
| "translate_from (Suc n) (c # cs) = translate_from n cs"
| "translate_from 0 (c # cs) =
     (if c = CHR ''*'' then GStar # translate_from 0 cs
      else if c = CHR ''?'' then GAny # translate_from 0 cs
      else if c = CHR ''['' then
        (case glob_bracket cs of
           None \<Rightarrow> GLit c # translate_from 0 cs
         | Some stuff \<Rightarrow>
             (if take 1 stuff = ''!'' then GSet True (glob_ranges (drop 1 stuff))
              else GSet False (glob_ranges stuff)) # translate_from (Suc (length stuff)) cs)
      else GLit c # translate_from 0 cs)"

fun glob_match :: "gtok list \<Rightarrow> string \<Rightarrow> bool" where
  "glob_match [] s = (s = [])"
| "glob_match (GStar # ts) [] = glob_match ts []"
| "glob_match (GStar # ts) (c # cs) = (glob_match ts (c # cs) \<or> glob_match (GStar # ts) cs)"
| "glob_match (GAny # ts) [] = False"
| "glob_match (GAny # ts) (c # cs) = glob_match ts cs"
| "glob_match (GSet neg rs # ts) [] = False"
| "glob_match (GSet neg rs # ts) (c # cs) = (in_set neg rs c \<and> glob_match ts cs)"
| "glob_match (GLit x # ts) [] = False"
| "glob_match (GLit x # ts) (c # cs) = (x = c \<and> glob_match ts cs)"

definition py_fnmatch :: "string \<Rightarrow> string \<Rightarrow> bool" where
  "py_fnmatch name pat = glob_match (translate_from 0 pat) name"


text \<open>
  Regular expressions. \<open>ends r w ps\<close> lists the positions of \<open>w\<close> at which a
  match of \<open>r\<close> that starts at a position of \<open>ps\<close> can end.
\<close>

datatype rx = Eps | Lit char | Dot | Cset bool charset | Bos | Eos | Eol
  | Seq rx rx | Alt rx rx | Star rx

text \<open>
  The parser reads the pattern once, left to right. An item of the current branch records
  whether a quantifier may still follow it: \<open>Fresh\<close> atoms may be repeated, anchors
  (\<open>Fixed\<close>) may not (\<^verbatim>\<open>nothing to repeat\<close>), a quantified item takes one lazy
  \<^verbatim>\<open>?\<close> and nothing else (\<^verbatim>\<open>multiple repeat\<close>).
\<close>

datatype rep = Fresh | Fixed | Quant | Lazy

datatype ctok = CChar char | CDash

datatype mode = Normal | Escape | SetOpen | SetNeg | InSet bool "ctok list"
  | SetEscape bool "ctok list"

type_synonym frame = "rx list \<times> (rx \<times> rep) list"

definition branch_rx :: "(rx \<times> rep) list \<Rightarrow> rx" where
  "branch_rx items = foldl (\<lambda>acc it. Seq (fst it) acc) Eps items"

definition frame_rx :: "frame \<Rightarrow> rx" where
  "frame_rx f = foldl (\<lambda>acc a. Alt a acc) (branch_rx (snd f)) (fst f)"

definition add_item :: "rx \<Rightarrow> rep \<Rightarrow> frame \<Rightarrow> frame" where
  "add_item r q f = (fst f, (r, q) # snd f)"

definition repeat :: "char \<Rightarrow> rx \<Rightarrow> rx" where
  "repeat c r =
     (if c = CHR ''*'' then Star r
      else if c = CHR ''+'' then Seq r (Star r)
      else Alt r Eps)"

fun quantify :: "char \<Rightarrow> frame \<Rightarrow> frame option" where
  "quantify c (alts, []) = None"
| "quantify c (alts, (r, Fresh) # its) = Some (alts, (repeat c r, Quant) # its)"
| "quantify c (alts, (r, Quant) # its) =
     (if c = CHR ''?'' then Some (alts, (r, Lazy) # its) else None)"
| "quantify c (alts, (r, Fixed) # its) = None"
| "quantify c (alts, (r, Lazy) # its) = None"

definition alnum :: "char \<Rightarrow> bool" where
  "alnum c = (in_range c (CHR ''a'', CHR ''z'') \<or> in_range c (CHR ''A'', CHR ''Z'')
     \<or> in_range c (CHR ''0'', CHR ''9''))"

fun tok_char :: "ctok \<Rightarrow> char" where
  "tok_char (CChar c) = c"
| "tok_char CDash = CHR ''-''"

fun set_ranges :: "ctok list \<Rightarrow> charset option" where
  "set_ranges (a # b # c # r) =
     (if b = CDash then
        (if in_range (tok_char a) (tok_char a, tok_char c)
         then map_option (\<lambda>rs. (tok_char a, tok_char c) # rs) (set_ranges r)
         else None)
      else map_option (\<lambda>rs. (tok_char a, tok_char a) # rs) (set_ranges (b # c # r)))"
| "set_ranges (a # r) = map_option (\<lambda>rs. (tok_char a, tok_char a) # rs) (set_ranges r)"
| "set_ranges [] = Some []"

type_synonym pstate = "mode \<times> frame \<times> frame list"

definition in_set_step :: "bool \<Rightarrow> ctok list \<Rightarrow> frame \<Rightarrow> frame list \<Rightarrow> char \<Rightarrow> pstate option" where
  "in_set_step neg toks cur outer c =
     (if c = CHR '']'' then
        (case set_ranges (rev toks) of
           None \<Rightarrow> None
         | Some rs \<Rightarrow> Some (Normal, add_item (Cset neg rs) Fresh cur, outer))
      else if c = bslash then Some (SetEscape neg toks, cur, outer)
      else if c = CHR ''-'' then Some (InSet neg (CDash # toks), cur, outer)
      else Some (InSet neg (CChar c # toks), cur, outer))"

definition normal_step :: "frame \<Rightarrow> frame list \<Rightarrow> char \<Rightarrow> pstate option" where
  "normal_step cur outer c =
     (if c = CHR ''('' then Some (Normal, ([], []), cur # outer)
      else if c = CHR '')'' then
        (case outer of
           [] \<Rightarrow> None
         | f # fs \<Rightarrow> Some (Normal, add_item (frame_rx cur) Fresh f, fs))
      else if c = CHR ''|'' then Some (Normal, (branch_rx (snd cur) # fst cur, []), outer)
      else if c = CHR ''*'' \<or> c = CHR ''+'' \<or> c = CHR ''?'' then
        map_option (\<lambda>f. (Normal, f, outer)) (quantify c cur)
      else if c = CHR ''['' then Some (SetOpen, cur, outer)
      else if c = CHR ''.'' then Some (Normal, add_item Dot Fresh cur, outer)
      else if c = CHR ''^'' then Some (Normal, add_item Bos Fixed cur, outer)
      else if c = CHR ''$'' then Some (Normal, add_item Eol Fixed cur, outer)
      else if c = bslash then Some (Escape, cur, outer)
      else if c = CHR ''{'' then None
      else Some (Normal, add_item (Lit c) Fresh cur, outer))"

fun pstep :: "pstate \<Rightarrow> char \<Rightarrow> pstate option" where
  "pstep (Normal, cur, outer) c = normal_step cur outer c"
| "pstep (Escape, cur, outer) c =
     (if c = CHR ''A'' then Some (Normal, add_item Bos Fixed cur, outer)
      else if c = CHR ''Z'' then Some (Normal, add_item Eos Fixed cur, outer)
      else if alnum c then None
      else Some (Normal, add_item (Lit c) Fresh cur, outer))"
| "pstep (SetOpen, cur, outer) c =
     (if c = CHR ''^'' then Some (SetNeg, cur, outer)
      else if c = CHR '']'' then Some (InSet False [CChar c], cur, outer)
      else in_set_step False [] cur outer c)"
| "pstep (SetNeg, cur, outer) c =
     (if c = CHR '']'' then Some (InSet True [CChar c], cur, outer)
      else in_set_step True [] cur outer c)"
| "pstep (InSet neg toks, cur, outer) c = in_set_step neg toks cur outer c"
| "pstep (SetEscape neg toks, cur, outer) c =
     (if alnum c then None else Some (InSet neg (CChar c # toks), cur, outer))"

fun psteps :: "pstate \<Rightarrow> string \<Rightarrow> pstate option" where
  "psteps st [] = Some st"
| "psteps st (c # cs) = (case pstep st c of None \<Rightarrow> None | Some st' \<Rightarrow> psteps st' cs)"

definition re_compile :: "string \<Rightarrow> rx option" where
  "re_compile pat =
     (case psteps (Normal, ([], []), []) pat of
        Some (Normal, cur, []) \<Rightarrow> Some (frame_rx cur)
      | _ \<Rightarrow> None)"

text \<open>
  At most \<open>length w + 1\<close> positions exist, so that many rounds reach every position
  an iteration can reach.
\<close>

primrec closure :: "nat \<Rightarrow> (nat list \<Rightarrow> nat list) \<Rightarrow> nat list \<Rightarrow> nat list" where
  "closure 0 f ps = ps"
| "closure (Suc n) f ps = closure n f (remdups (ps @ f ps))"

definition advance :: "string \<Rightarrow> (char \<Rightarrow> bool) \<Rightarrow> nat list \<Rightarrow> nat list" where
  "advance w ok ps = map Suc (filter (\<lambda>p. p < length w \<and> ok (w ! p)) ps)"

primrec ends :: "rx \<Rightarrow> string \<Rightarrow> nat list \<Rightarrow> nat list" where
  "ends Eps w ps = ps"
| "ends (Lit c) w ps = advance w (\<lambda>x. x = c) ps"
| "ends Dot w ps = advance w (\<lambda>x. x \<noteq> newline) ps"
| "ends (Cset neg rs) w ps = advance w (in_set neg rs) ps"
| "ends Bos w ps = filter (\<lambda>p. p = 0) ps"
| "ends Eos w ps = filter (\<lambda>p. p = length w) ps"
| "ends Eol w ps =
     filter (\<lambda>p. p = length w \<or> (Suc p = length w \<and> w ! p = newline)) ps"
| "ends (Seq a b) w ps = ends b w (ends a w ps)"
| "ends (Alt a b) w ps = ends a w ps @ ends b w ps"
| "ends (Star a) w ps = closure (Suc (length w)) (ends a w) ps"

definition py_re_match :: "string \<Rightarrow> string \<Rightarrow> bool option" where
  "py_re_match pat s = map_option (\<lambda>r. ends r s [0] \<noteq> []) (re_compile pat)"

definition py_re_search :: "string \<Rightarrow> string \<Rightarrow> bool option" where
  "py_re_search pat s =
     map_option (\<lambda>r. ends r s [0..<Suc (length s)] \<noteq> []) (re_compile pat)"

definition stdlib :: pylib where
  "stdlib = \<lparr>fnmatch = py_fnmatch, re_match = py_re_match, re_search = py_re_search\<rparr>"

subsection \<open>The single-pattern matcher as a predicate\<close>

text \<open>\<open>matches\<close> is \<^verbatim>\<open>expr_match\<close> on a pattern that is a string, read as a truth value.
\<close>

definition matches :: "pylib \<Rightarrow> string \<Rightarrow> string \<Rightarrow> bool" where
  "matches L candidate pattern = (expr_match L candidate (PStr pattern) = Inr True)"

text \<open>\<^verbatim>\<open>re.fullmatch(pattern, string)\<close> in the model: the whole string matches the pattern.
\<close>

definition py_re_fullmatch :: "string \<Rightarrow> string \<Rightarrow> bool option" where
  "py_re_fullmatch pat s = map_option (\<lambda>r. length s \<in> set (ends r s [0])) (re_compile pat)"

section \<open>Properties\<close>

subsection \<open>Auxiliary facts\<close>

lemma expr_match_str:
  "expr_match L line (PStr e) = Inr (matches L line e)"
  by (auto simp: matches_def expr_match_def split: option.splits bool.splits)

lemma matches_stages:
  "matches L line e = (line = e \<or> fnmatch L line e \<or> re_match L (anchored e) line = Some True)"
  by (auto simp: matches_def expr_match_def split: option.splits bool.splits)

lemma any_match_strs:
  "any_match L v (map PStr ps) = Inr (list_ex (matches L v) ps)"
  by (induction ps) (auto simp: expr_match_str split: bool.splits)

lemma any_match_cases:
  "any_match L v es = Inr True \<or> any_match L v es = Inr False \<or> any_match L v es = Inl TypeError"
proof (induction es)
  case Nil
  show ?case by simp
next
  case (Cons e es)
  show ?case
  proof (cases e)
    case (PStr s)
    with Cons show ?thesis by (cases "matches L v s") (simp_all add: expr_match_str)
  next
    case (PInt n)
    then show ?thesis by (simp add: expr_match_def)
  qed
qed

lemma blacklist_block_cases:
  "fst (blacklist_block L v bl) = Return False \<or> fst (blacklist_block L v bl) = Continue"
  using any_match_cases [of L v "coerce bl"]
  by (auto simp: blacklist_block_def)

lemma whitelist_block_cases:
  "fst (whitelist_block L v wl) = Return True \<or> fst (whitelist_block L v wl) = Continue"
  using any_match_cases [of L v "coerce wl"]
  by (auto simp: whitelist_block_def)

lemma blacklist_block_strs:
  "blacklist_block L v (PIter (map PStr ps)) =
     (if list_ex (matches L v) ps then (Return False, []) else (Continue, []))"
  by (simp add: blacklist_block_def any_match_strs)

lemma whitelist_block_strs:
  "ps \<noteq> [] \<Longrightarrow> whitelist_block L v (PIter (map PStr ps)) =
     (if list_ex (matches L v) ps then (Return True, []) else (Continue, []))"
  by (simp add: whitelist_block_def any_match_strs)

lemma blacklist_block_quiet:
  assumes "blacklist = PNone \<or> blacklist = PIter (map PStr bs)"
    and "\<forall>b\<in>set bs. \<not> matches L v b"
  shows "blacklist_block L v blacklist = (Continue, [])"
proof -
  have "\<not> list_ex (matches L v) bs" using assms(2) by (simp add: list_ex_iff)
  then show ?thesis using assms(1)
    by (auto simp: blacklist_block_strs) (simp add: blacklist_block_def)
qed

lemma check_whitelist_blacklist_returns:
  "\<exists>b. fst (check_whitelist_blacklist L v whitelist blacklist) = Inr b"
proof -
  obtain o1 l1 where b: "blacklist_block L v blacklist = (o1, l1)" by fastforce
  obtain o2 l2 where w: "whitelist_block L v whitelist = (o2, l2)" by fastforce
  have "o1 = Return False \<or> o1 = Continue"
    using blacklist_block_cases [of L v blacklist] b by simp
  moreover have "o2 = Return True \<or> o2 = Continue"
    using whitelist_block_cases [of L v whitelist] w by simp
  ultimately show ?thesis
    by (auto simp: check_whitelist_blacklist_def b w)
qed

lemma check_include_exclude_unfold:
  "check_include_exclude L x inc exc =
     (if given inc then
        (case pat_test L x (the inc) of
           Inl err \<Rightarrow> Inl err
         | Inr i \<Rightarrow>
             if given exc then
               (case pat_test L x (the exc) of
                  Inl err \<Rightarrow> Inl err
                | Inr m \<Rightarrow> Inr (i \<and> \<not> m))
             else Inr i)
      else if given exc then
        (case pat_test L x (the exc) of Inl err \<Rightarrow> Inl err | Inr m \<Rightarrow> Inr (\<not> m))
      else Inr True)"
  by (cases inc; cases exc)
    (auto simp: check_include_exclude_def bind_include_def bind_exclude_def
      split: sum.splits)


lemma re_compile_marker:
  "re_compile ''E@'' = Some (Seq (Lit (CHR ''E'')) (Seq (Lit (CHR ''@'')) Eps))"
  by code_simp

lemma py_re_match_marker: "py_re_match ''E@'' p = Some (take 2 p = ''E@'')"
proof (cases p)
  case Nil
  then show ?thesis by (simp add: py_re_match_def re_compile_marker advance_def)
next
  case (Cons a q)
  then show ?thesis
    by (cases q) (auto simp: py_re_match_def re_compile_marker advance_def)
qed

lemma pat_test_stdlib:
  "pat_test stdlib x p =
     (if take 2 p = ''E@'' then
        (case py_re_search (drop 2 p) x of None \<Rightarrow> Inl ReError | Some found \<Rightarrow> Inr found)
      else Inr (py_fnmatch x p))"
  by (simp add: pat_test_def stdlib_def py_re_match_marker)


lemma re_compile_empty: "re_compile [] = Some Eps"
  by code_simp

lemma py_re_search_empty: "py_re_search [] x = Some True"
  by (simp add: py_re_search_def re_compile_empty)

subsection \<open>Whitelist and blacklist\<close>

text \<open>C1. Blacklist precedence: when the value matches a pattern of the blacklist (a list
  of string patterns, or a single string without \<^verbatim>\<open>__iter__\<close>, which the code wraps
  in a list), the result
  is \<open>False\<close> whatever the whitelist is.
\<close>

theorem blacklist_precedence:
  assumes "blacklist = PIter (map PStr ps) \<or> (blacklist = PObj (PStr q) \<and> ps = [q])"
    and "p \<in> set ps" and "matches L v p"
  shows "fst (check_whitelist_blacklist L v whitelist blacklist) = Inr False"
proof -
  have ex: "list_ex (matches L v) ps"
    using assms(2,3) by (auto simp: list_ex_iff)
  have "any_match L v (coerce blacklist) = Inr True"
    using assms(1) ex any_match_strs [of L v ps] by auto
  moreover have "blacklist \<noteq> PNone" using assms(1) by auto
  ultimately have "blacklist_block L v blacklist = (Return False, [])"
    by (simp add: blacklist_block_def)
  then show ?thesis by (simp add: check_whitelist_blacklist_def)
qed

theorem blacklist_precedence_witness:
  "matches stdlib ''minion01'' ''minion*''
   \<and> fst (check_whitelist_blacklist stdlib ''minion01'' (PIter [PStr ''minion01''])
        (PIter [PStr ''web*'', PStr ''minion*''])) = Inr False"
proof -
  have m: "matches stdlib ''minion01'' ''minion*''" by code_simp
  show ?thesis
    using blacklist_precedence [where blacklist = "PIter (map PStr [''web*'', ''minion*''])"
        and ps = "[''web*'', ''minion*'']" and p = "''minion*''" and L = stdlib
        and v = "''minion01''" and whitelist = "PIter [PStr ''minion01'']"] m
    by simp
qed

text \<open>C2. When no blacklist pattern matched the value: an absent or empty whitelist
  admits (in particular with both arguments \<^verbatim>\<open>None\<close>), and a non-empty whitelist
  of string patterns admits exactly when the value matches one of them.
\<close>

theorem whitelist_default_admit:
  assumes "blacklist = PNone \<or> blacklist = PIter (map PStr bs)"
    and "\<forall>b\<in>set bs. \<not> matches L v b"
  shows "fst (check_whitelist_blacklist L v PNone blacklist) = Inr True
    \<and> fst (check_whitelist_blacklist L v (PIter []) blacklist) = Inr True
    \<and> fst (check_whitelist_blacklist L v PNone PNone) = Inr True
    \<and> (ws \<noteq> [] \<longrightarrow>
         fst (check_whitelist_blacklist L v (PIter (map PStr ws)) blacklist)
           = Inr (\<exists>w\<in>set ws. matches L v w))"
proof -
  note q = blacklist_block_quiet [OF assms]
  have 1: "fst (check_whitelist_blacklist L v PNone blacklist) = Inr True"
    by (simp add: check_whitelist_blacklist_def q whitelist_block_def)
  have 2: "fst (check_whitelist_blacklist L v (PIter []) blacklist) = Inr True"
    by (simp add: check_whitelist_blacklist_def q whitelist_block_def)
  have 3: "fst (check_whitelist_blacklist L v PNone PNone) = Inr True"
    by (simp add: check_whitelist_blacklist_def blacklist_block_def whitelist_block_def)
  have 4: "fst (check_whitelist_blacklist L v (PIter (map PStr ws)) blacklist)
           = Inr (\<exists>w\<in>set ws. matches L v w)" if "ws \<noteq> []"
    using that
    by (simp add: check_whitelist_blacklist_def q whitelist_block_strs list_ex_iff)
  from 1 2 3 4 show ?thesis by blast
qed

theorem whitelist_default_admit_witness:
  "fst (check_whitelist_blacklist stdlib ''minion01'' PNone (PIter [PStr ''web*''])) = Inr True
   \<and> fst (check_whitelist_blacklist stdlib ''minion01'' (PIter []) (PIter [PStr ''web*''])) = Inr True
   \<and> fst (check_whitelist_blacklist stdlib ''minion01'' PNone PNone) = Inr True
   \<and> fst (check_whitelist_blacklist stdlib ''minion01'' (PIter [PStr ''db*'', PStr ''minion*''])
        (PIter [PStr ''web*''])) = Inr True
   \<and> fst (check_whitelist_blacklist stdlib ''minion01'' (PIter [PStr ''db*''])
        (PIter [PStr ''web*''])) = Inr False"
proof -
  have b: "\<not> matches stdlib ''minion01'' ''web*''" by code_simp
  have w1: "\<not> matches stdlib ''minion01'' ''db*''" by code_simp
  have w2: "matches stdlib ''minion01'' ''minion*''" by code_simp
  show ?thesis
    using whitelist_default_admit [where blacklist = "PIter (map PStr [''web*''])"
        and bs = "[''web*'']" and L = stdlib and v = "''minion01''"
        and ws = "[''db*'', ''minion*'']"]
      whitelist_default_admit [where blacklist = "PIter (map PStr [''web*''])"
        and bs = "[''web*'']" and L = stdlib and v = "''minion01''" and ws = "[''db*'']"]
      b w1 w2
    by simp
qed

subsection \<open>Include and exclude patterns\<close>

text \<open>C3. Combination policy of \<^verbatim>\<open>check_include_exclude\<close>, a pattern counting as
  supplied when it passes the code's truth test (neither \<^verbatim>\<open>None\<close> nor empty): no
  pattern gives \<open>True\<close>; the include pattern alone gives its test; the exclude pattern
  alone gives the negation of its test; both give "include matches and exclude does not".
\<close>

theorem include_exclude_policy:
  assumes "i \<noteq> []" and "e \<noteq> []"
    and "pat_test L x i = Inr im" and "pat_test L x e = Inr em"
  shows "check_include_exclude L x None None = Inr True
    \<and> check_include_exclude L x (Some i) None = Inr im
    \<and> check_include_exclude L x None (Some e) = Inr (\<not> em)
    \<and> check_include_exclude L x (Some i) (Some e) = Inr (im \<and> \<not> em)"
  using assms
  by (simp add: check_include_exclude_def bind_include_def bind_exclude_def)

theorem include_exclude_policy_witness:
  "check_include_exclude stdlib ''/etc/debian_chroot'' None None = Inr True
   \<and> check_include_exclude stdlib ''/etc/debian_chroot'' (Some ''E@chroot'') None = Inr True
   \<and> check_include_exclude stdlib ''/etc/debian_chroot'' None (Some ''/etc/*'') = Inr False
   \<and> check_include_exclude stdlib ''/etc/debian_chroot'' (Some ''E@chroot'') (Some ''/etc/*'')
       = Inr False"
proof -
  have i: "pat_test stdlib ''/etc/debian_chroot'' ''E@chroot'' = Inr True" by code_simp
  have e: "pat_test stdlib ''/etc/debian_chroot'' ''/etc/*'' = Inr True" by code_simp
  have n: "''E@chroot'' \<noteq> []" "''/etc/*'' \<noteq> []" by simp_all
  show ?thesis
    using include_exclude_policy [OF n i e] by simp
qed



subsection \<open>The regular-expression stage of expr_match\<close>

text \<open>C5. The regular-expression stage of \<^verbatim>\<open>expr_match\<close> puts the pattern between
  \<^verbatim>\<open>\A\<close> and \<^verbatim>\<open>\Z\<close> without grouping it. The two examples of the claim hold, but
  with an alternation at the top level each anchor binds one alternative only:
  \<^verbatim>\<open>a|b\<close> is accepted for \<^verbatim>\<open>axyz\<close>, which it does not match as a whole, and which
  is neither equal to the pattern nor matched by it as a glob.
\<close>

theorem anchoring_lost_on_alternation:
  "expr_match stdlib ''axyz'' (PStr ''a|b'') = Inr True
   \<and> ''axyz'' \<noteq> ''a|b''
   \<and> \<not> py_fnmatch ''axyz'' ''a|b''
   \<and> py_re_fullmatch ''a|b'' ''axyz'' = Some False
   \<and> expr_match stdlib ''abc123'' (PStr ''[a-z]+[0-9]+'') = Inr True
   \<and> expr_match stdlib ''xabc123y'' (PStr ''[a-z]+[0-9]+'') = Inr False"
  by code_simp

text \<open>C6. When \<^verbatim>\<open>re.match\<close> raises \<^verbatim>\<open>re.error\<close> in the regular-expression stage, the
  call does not raise and its result is that of the first two stages; so a pattern
  that reaches the stage is a non-match, and a whitelist or blacklist evaluates as if
  the pattern were not in it.
\<close>

theorem invalid_regex_non_match:
  assumes "re_match L (anchored e) line = None"
  shows "expr_match L line (PStr e) = Inr (line = e \<or> fnmatch L line e)
    \<and> (line \<noteq> e \<and> \<not> fnmatch L line e \<longrightarrow>
          expr_match L line (PStr e) = Inr False
        \<and> check_whitelist_blacklist L line whitelist (PIter (map PStr (ps @ e # qs)))
            = check_whitelist_blacklist L line whitelist (PIter (map PStr (ps @ qs)))
        \<and> (ps @ qs \<noteq> [] \<longrightarrow>
            check_whitelist_blacklist L line (PIter (map PStr (ps @ e # qs))) blacklist
            = check_whitelist_blacklist L line (PIter (map PStr (ps @ qs))) blacklist))"
proof -
  have m: "matches L line e = (line = e \<or> fnmatch L line e)"
    using assms by (simp add: matches_stages)
  have 1: "expr_match L line (PStr e) = Inr (line = e \<or> fnmatch L line e)"
    by (simp add: expr_match_str m)
  have 2: "expr_match L line (PStr e) = Inr False
        \<and> check_whitelist_blacklist L line whitelist (PIter (map PStr (ps @ e # qs)))
            = check_whitelist_blacklist L line whitelist (PIter (map PStr (ps @ qs)))
        \<and> (ps @ qs \<noteq> [] \<longrightarrow>
            check_whitelist_blacklist L line (PIter (map PStr (ps @ e # qs))) blacklist
            = check_whitelist_blacklist L line (PIter (map PStr (ps @ qs))) blacklist)"
    if h: "line \<noteq> e \<and> \<not> fnmatch L line e"
  proof -
    from h m have n: "\<not> matches L line e" by simp
    have ex: "list_ex (matches L line) (ps @ e # qs) = list_ex (matches L line) (ps @ qs)"
      using n by (simp add: list_ex_iff)
    have b: "blacklist_block L line (PIter (map PStr (ps @ e # qs)))
        = blacklist_block L line (PIter (map PStr (ps @ qs)))"
      by (simp only: blacklist_block_strs ex)
    have w: "whitelist_block L line (PIter (map PStr (ps @ e # qs)))
        = whitelist_block L line (PIter (map PStr (ps @ qs)))" if "ps @ qs \<noteq> []"
      using that whitelist_block_strs [of "ps @ e # qs" L line]
        whitelist_block_strs [of "ps @ qs" L line] ex
      by simp
    have A: "check_whitelist_blacklist L line whitelist (PIter (map PStr (ps @ e # qs)))
        = check_whitelist_blacklist L line whitelist (PIter (map PStr (ps @ qs)))"
      by (simp only: check_whitelist_blacklist_def b)
    have B: "check_whitelist_blacklist L line (PIter (map PStr (ps @ e # qs))) blacklist
        = check_whitelist_blacklist L line (PIter (map PStr (ps @ qs))) blacklist"
      if "ps @ qs \<noteq> []"
      by (simp only: check_whitelist_blacklist_def w [OF that])
    have C: "expr_match L line (PStr e) = Inr False"
      using h 1 by simp
    from A B C show ?thesis by blast
  qed
  from 1 2 show ?thesis by blast
qed

theorem invalid_regex_non_match_witness:
  "py_re_match (anchored ''('') ''x'' = None
   \<and> expr_match stdlib ''x'' (PStr ''('') = Inr False
   \<and> fst (check_whitelist_blacklist stdlib ''x'' (PIter [PStr ''('', PStr ''x'']) PNone) = Inr True
   \<and> fst (check_whitelist_blacklist stdlib ''x'' PNone (PIter [PStr ''('', PStr ''x''])) = Inr False"
proof -
  have c: "re_match stdlib (anchored ''('') ''x'' = None" by code_simp
  have g: "\<not> fnmatch stdlib ''x'' ''(''" by code_simp
  have w: "fst (check_whitelist_blacklist stdlib ''x'' (PIter (map PStr ([] @ [''x'']))) PNone) = Inr True"
    by code_simp
  have b: "fst (check_whitelist_blacklist stdlib ''x'' PNone (PIter (map PStr ([] @ [''x''])))) = Inr False"
    by code_simp
  have c': "py_re_match (anchored ''('') ''x'' = None" by code_simp
  show ?thesis
    using invalid_regex_non_match [OF c, where ps = "[]" and qs = "[''x'']"
        and whitelist = PNone and blacklist = PNone] g w b c'
    by simp
qed

subsection \<open>Exceptions and malformed arguments\<close>




text \<open>C8, as stated, fails: a whitelist that is a non-string scalar is logged, and the call
  then returns \<open>False\<close>, not \<open>True\<close>.
\<close>

theorem malformed_whitelist_counterexample:
  "fst (check_whitelist_blacklist stdlib ''x'' (PObj (PInt 5)) PNone) = Inr False"
  by code_simp

text \<open>C8, amended. The call never raises. A blacklist that is a non-string scalar is
  logged and otherwise ignored: result and further log records are those of the call
  without a blacklist. A whitelist that is a non-string scalar with a true truth value
  is logged, and the call returns \<open>False\<close> when the blacklist did not deny.
\<close>

theorem malformed_pattern_sets:
  "check_whitelist_blacklist L v whitelist (PObj (PInt n))
     = (fst (check_whitelist_blacklist L v whitelist PNone),
        LogError ''Non-iterable blacklist %s'' [PInt n]
          # snd (check_whitelist_blacklist L v whitelist PNone))
   \<and> (n \<noteq> 0 \<and> fst (check_whitelist_blacklist L v PNone blacklist) = Inr True \<longrightarrow>
        fst (check_whitelist_blacklist L v (PObj (PInt n)) blacklist) = Inr False
      \<and> snd (check_whitelist_blacklist L v (PObj (PInt n)) blacklist)
          = snd (check_whitelist_blacklist L v PNone blacklist)
            @ [LogError ''Non-iterable whitelist %s'' [PInt n]])
   \<and> (\<exists>b. fst (check_whitelist_blacklist L v whitelist blacklist) = Inr b)"
proof -
  have 1: "check_whitelist_blacklist L v whitelist (PObj (PInt n))
     = (fst (check_whitelist_blacklist L v whitelist PNone),
        LogError ''Non-iterable blacklist %s'' [PInt n]
          # snd (check_whitelist_blacklist L v whitelist PNone))"
    by (simp add: check_whitelist_blacklist_def blacklist_block_def expr_match_def
        split: prod.splits outcome.splits)
  have 2: "fst (check_whitelist_blacklist L v (PObj (PInt n)) blacklist) = Inr False
      \<and> snd (check_whitelist_blacklist L v (PObj (PInt n)) blacklist)
          = snd (check_whitelist_blacklist L v PNone blacklist)
            @ [LogError ''Non-iterable whitelist %s'' [PInt n]]"
    if h: "n \<noteq> 0 \<and> fst (check_whitelist_blacklist L v PNone blacklist) = Inr True"
  proof -
    obtain o1 l1 where b: "blacklist_block L v blacklist = (o1, l1)" by fastforce
    have "o1 = Return False \<or> o1 = Continue"
      using blacklist_block_cases [of L v blacklist] b by simp
    with h have "o1 = Continue"
      by (auto simp: check_whitelist_blacklist_def b)
    with h show ?thesis
      by (simp add: check_whitelist_blacklist_def b whitelist_block_def expr_match_def)
  qed
  from 1 2 check_whitelist_blacklist_returns [of L v whitelist blacklist]
  show ?thesis by blast
qed

theorem malformed_pattern_sets_witness:
  "fst (check_whitelist_blacklist stdlib ''minion01'' PNone (PIter [PStr ''web*''])) = Inr True
   \<and> check_whitelist_blacklist stdlib ''minion01'' (PObj (PInt 5)) (PIter [PStr ''web*''])
      = (Inr False, [LogError ''Non-iterable whitelist %s'' [PInt 5]])
   \<and> check_whitelist_blacklist stdlib ''minion01'' (PIter [PStr ''minion*'']) (PObj (PInt 5))
      = (Inr True, [LogError ''Non-iterable blacklist %s'' [PInt 5]])"
proof -
  have a: "check_whitelist_blacklist stdlib ''minion01'' PNone (PIter [PStr ''web*'']) = (Inr True, [])"
    by code_simp
  have b: "check_whitelist_blacklist stdlib ''minion01'' (PIter [PStr ''minion*'']) PNone = (Inr True, [])"
    by code_simp
  show ?thesis
    using malformed_pattern_sets [of stdlib "''minion01''" "PIter [PStr ''minion*'']" 5
        "PIter [PStr ''web*'']"] a b
    by (simp add: prod_eq_iff)
qed

subsection \<open>Empty patterns and the bare marker\<close>

text \<open>C9. An empty include or exclude pattern is treated as a pattern that was not
  supplied; with both empty the result is \<open>True\<close>.
\<close>

theorem empty_patterns_absent:
  "check_include_exclude L x (Some []) (Some []) = Inr True
   \<and> check_include_exclude L x (Some []) exc = check_include_exclude L x None exc
   \<and> check_include_exclude L x inc (Some []) = check_include_exclude L x inc None"
  by (auto simp: check_include_exclude_unfold split: sum.splits)

theorem empty_patterns_absent_witness:
  "check_include_exclude stdlib ''/etc/debian_chroot'' (Some []) (Some []) = Inr True
   \<and> check_include_exclude stdlib ''/etc/debian_chroot'' (Some []) (Some ''/etc/*'') = Inr False
   \<and> check_include_exclude stdlib ''/etc/debian_chroot'' (Some ''/etc/*'') (Some []) = Inr True"
proof -
  have a: "check_include_exclude stdlib ''/etc/debian_chroot'' None (Some ''/etc/*'') = Inr False"
    by code_simp
  have b: "check_include_exclude stdlib ''/etc/debian_chroot'' (Some ''/etc/*'') None = Inr True"
    by code_simp
  show ?thesis
    using empty_patterns_absent [of stdlib "''/etc/debian_chroot''" "Some ''/etc/*''" "Some ''/etc/*''"]
      a b
    by simp
qed

text \<open>C10. With the bare marker \<^verbatim>\<open>E@\<close> the remainder is the empty regular expression,
  which is found in every candidate: as include pattern it admits every candidate, as
  exclude pattern it denies every candidate.
\<close>

theorem bare_marker_matches_all:
  "check_include_exclude stdlib x (Some ''E@'') None = Inr True
   \<and> check_include_exclude stdlib x None (Some ''E@'') = Inr False"
  by (simp add: check_include_exclude_unfold pat_test_stdlib py_re_search_empty)

theorem bare_marker_matches_all_witness:
  "check_include_exclude stdlib ''/etc/debian_chroot'' (Some ''E@'') None = Inr True
   \<and> check_include_exclude stdlib [] None (Some ''E@'') = Inr False"
  using bare_marker_matches_all [of "''/etc/debian_chroot''"] bare_marker_matches_all [of "[]"]
  by simp

end
